theory Spec2Isabelle
  imports Complex_Main "HOL-Library.AList"
begin

section \<open>Python values and exceptions\<close>

text \<open>
  Exceptions are values: every function that can raise returns \<open>error + 'a\<close>, with
  \<open>Inl\<close> for the exception. \<open>ValueError\<close> and \<open>TypeError\<close> carry their message.
  \<open>BadReference\<close> is not a Python exception: it is the result of the model on an
  address that holds no object or on the name of a class that does not exist, which no
  Python program can produce.
\<close>

datatype error =
    ValueError string
  | TypeError string
  | IndexError
  | KeyError
  | AttributeError
  | OverflowError
  | OtherError string
  | BadReference

text \<open>
  A Python float is a finite value, an infinity or NaN. A finite double is represented
  by its exact value.
\<close>

datatype pyfloat = Finite real | PosInf | NegInf | NaN

text \<open>
  The type objects that \<open>type(x)\<close> of \<open>_array_wrapper.py\<close> can return: the three
  built-in numeric types, compared by identity (\<open>dtype is float\<close>), and any other type by
  its name (NumPy scalar types, \<open>list\<close>, \<open>tuple\<close>, ...).
\<close>

datatype pytype = TBool | TInt | TFloat | TOther string

datatype number =
    PBool bool
  | PInt int
  | PFloat pyfloat
  | PNumpy string pyfloat  \<comment> \<open>a NumPy scalar: the name of its type and its value\<close>

datatype seqclass = PyList | PyTuple

datatype pyval =
    Num number
  | Seq seqclass "pyval list"
  | NdArray "nat list" "number list"  \<comment> \<open>\<open>numpy.ndarray\<close>: its shape and its flattened items\<close>
  | Opaque string                     \<comment> \<open>any other object, by the name of its type\<close>

fun type_of_number :: "number \<Rightarrow> pytype" where
  "type_of_number (PBool b) = TBool"
| "type_of_number (PInt i) = TInt"
| "type_of_number (PFloat f) = TFloat"
| "type_of_number (PNumpy n f) = TOther n"

fun type_of :: "pyval \<Rightarrow> pytype" where
  "type_of (Num n) = type_of_number n"
| "type_of (Seq PyList xs) = TOther ''list''"
| "type_of (Seq PyTuple xs) = TOther ''tuple''"
| "type_of (NdArray s d) = TOther ''ndarray''"
| "type_of (Opaque n) = TOther n"

section \<open>\<open>_get_dtype_from_iterable\<close>\<close>

text \<open>
  The loop of \<open>_get_dtype_from_iterable\<close> over the elements, with the set \<open>dtypes\<close>
  as accumulator. \<open>None\<close> is the early \<open>return float\<close>.
\<close>

fun collect_dtypes :: "pytype set \<Rightarrow> pyval list \<Rightarrow> pytype set option" where
  "collect_dtypes dtypes [] = Some dtypes"
| "collect_dtypes dtypes (element # rest) =
     (let dtype = type_of element
      in if dtype = TFloat then None
         else collect_dtypes (insert dtype dtypes) rest)"

definition get_dtype_from_iterable :: "pyval list \<Rightarrow> error + pytype" where
  "get_dtype_from_iterable iterable =
     (case collect_dtypes {} iterable of
        None \<Rightarrow> Inr TFloat
      | Some dtypes \<Rightarrow>
          if card dtypes = 0 then Inr TFloat
          else if dtypes \<in> set [{TInt}, {TBool, TInt}] then Inr TInt
          else if dtypes = {TBool} then Inr TBool
          else Inl (TypeError ''Unexpected error: dtype should be numeric''))"

lemma collect_dtypes_None:
  "collect_dtypes acc xs = None \<longleftrightarrow> (\<exists>x \<in> set xs. type_of x = TFloat)"
  by (induction xs arbitrary: acc) (auto simp: Let_def)

lemma collect_dtypes_Some:
  "collect_dtypes acc xs = Some d \<Longrightarrow> d = acc \<union> type_of ` set xs"
  by (induction xs arbitrary: acc) (auto simp: Let_def split: if_splits)

lemma collect_dtypes_finite:
  "collect_dtypes acc xs = Some d \<Longrightarrow> finite acc \<Longrightarrow> finite d"
  by (drule collect_dtypes_Some) simp

text \<open>
  C9. \<open>_get_dtype_from_iterable\<close> returns \<open>float\<close> when some element has type
  exactly \<open>float\<close> or the iterable is empty; otherwise \<open>int\<close> when the set of the
  element types is \<open>{int}\<close> or \<open>{bool, int}\<close>; otherwise \<open>bool\<close> when every element
  is a \<open>bool\<close>; and for every other combination of element types it raises
  \<open>TypeError\<close>.
\<close>

theorem get_dtype_from_iterable_spec:
  "get_dtype_from_iterable xs =
     (if (\<exists>x \<in> set xs. type_of x = TFloat) \<or> xs = [] then Inr TFloat
      else if type_of ` set xs = {TInt} \<or> type_of ` set xs = {TBool, TInt} then Inr TInt
      else if (\<forall>x \<in> set xs. type_of x = TBool) then Inr TBool
      else Inl (TypeError ''Unexpected error: dtype should be numeric''))"
proof (cases "collect_dtypes {} xs")
  case None
  then have "\<exists>x \<in> set xs. type_of x = TFloat"
    by (simp add: collect_dtypes_None)
  with None show ?thesis
    by (simp add: get_dtype_from_iterable_def)
next
  case (Some d)
  have nofloat: "\<not> (\<exists>x \<in> set xs. type_of x = TFloat)"
    using Some collect_dtypes_None [of "{}" xs] by simp
  have d: "d = type_of ` set xs"
    using collect_dtypes_Some [OF Some] by simp
  have fin: "finite d"
    using d by simp
  have empty: "card d = 0 \<longleftrightarrow> xs = []"
    using fin d by simp
  have allbool: "d = {TBool} \<longleftrightarrow> xs \<noteq> [] \<and> (\<forall>x \<in> set xs. type_of x = TBool)"
    using d by (cases xs) auto
  show ?thesis
    using Some nofloat empty allbool d
    by (auto simp: get_dtype_from_iterable_def)
qed

theorem get_dtype_from_iterable_spec_witness:
  "get_dtype_from_iterable [Num (PInt 1), Num (PFloat (Finite 2))] = Inr TFloat
   \<and> get_dtype_from_iterable [] = Inr TFloat
   \<and> get_dtype_from_iterable [Num (PBool True), Num (PInt 3)] = Inr TInt
   \<and> get_dtype_from_iterable [Num (PBool True), Num (PBool False)] = Inr TBool
   \<and> get_dtype_from_iterable [Num (PInt 1), Num (PNumpy ''float64'' (Finite 2))]
       = Inl (TypeError ''Unexpected error: dtype should be numeric'')"
proof -
  have 1: "get_dtype_from_iterable [Num (PInt 1), Num (PFloat (Finite 2))] = Inr TFloat"
    using get_dtype_from_iterable_spec [of "[Num (PInt 1), Num (PFloat (Finite 2))]"]
    by simp
  have 2: "get_dtype_from_iterable [] = Inr TFloat"
    using get_dtype_from_iterable_spec [of "[]"] by simp
  have 3: "get_dtype_from_iterable [Num (PBool True), Num (PInt 3)] = Inr TInt"
    using get_dtype_from_iterable_spec [of "[Num (PBool True), Num (PInt 3)]"]
    by simp
  have 4: "get_dtype_from_iterable [Num (PBool True), Num (PBool False)] = Inr TBool"
    using get_dtype_from_iterable_spec [of "[Num (PBool True), Num (PBool False)]"]
    by simp
  have 5: "get_dtype_from_iterable [Num (PInt 1), Num (PNumpy ''float64'' (Finite 2))]
       = Inl (TypeError ''Unexpected error: dtype should be numeric'')"
    using get_dtype_from_iterable_spec
            [of "[Num (PInt 1), Num (PNumpy ''float64'' (Finite 2))]"]
    by (simp add: doubleton_eq_iff)
  from 1 2 3 4 5 show ?thesis by simp
qed

section \<open>Objects and the wrappers of \<open>_array_wrapper.py\<close>\<close>

text \<open>
  \<open>_ArrayLikeWrapper.__new__\<close> returns an already wrapped input as it is and stores
  the input object itself, not a copy, in \<open>_array\<close>. To state this, objects live in a
  store and are passed by address: an address is an index into the list of the objects
  created so far, and creating an object appends it.

  An object is a plain Python value or an instance of one of the four concrete wrapper
  classes. An instance holds the address of its \<open>_array\<close>; the two sequence wrappers
  also have the attribute \<open>_dtype\<close>, which is \<open>None\<close> until \<open>dtype\<close> is first read
  or \<open>change_dtype\<close> is called.
\<close>

type_synonym addr = nat

datatype wrapper =
    NumpyArrayWrapper addr
  | Sequence1DWrapper addr "pytype option"
  | Sequence2DWrapper addr "pytype option"
  | NumberWrapper addr

datatype obj = Data pyval | Wrap wrapper

type_synonym heap = "obj list"

definition deref :: "heap \<Rightarrow> addr \<Rightarrow> obj option" where
  "deref h a = (if a < length h then Some (h ! a) else None)"

text \<open>\<open>object.__new__(cls)\<close> followed by the \<open>__setattr__\<close> calls: a new object.\<close>

definition alloc :: "heap \<Rightarrow> obj \<Rightarrow> addr \<times> heap" where
  "alloc h ob = (length h, h @ [ob])"

fun array_of :: "wrapper \<Rightarrow> addr" where
  "array_of (NumpyArrayWrapper a) = a"
| "array_of (Sequence1DWrapper a d) = a"
| "array_of (Sequence2DWrapper a d) = a"
| "array_of (NumberWrapper a) = a"

fun is_builtin_wrapper :: "wrapper \<Rightarrow> bool" where
  "is_builtin_wrapper (NumpyArrayWrapper a) = False"
| "is_builtin_wrapper (Sequence1DWrapper a d) = True"
| "is_builtin_wrapper (Sequence2DWrapper a d) = True"
| "is_builtin_wrapper (NumberWrapper a) = True"

text \<open>
  \<open>__new__\<close> calls four functions of the modules \<open>_type_guards\<close> and
  \<open>_cast_array\<close>, which are not part of the sources at hand. They are parameters of
  the model: each takes the input value and returns a result or raises. The fifth
  parameter is \<open>reprlib.repr\<close> of the standard library, the abbreviated text of the
  object at an address of the store.
\<close>

record helpers =
  is_Number :: "pyval \<Rightarrow> error + bool"
  is_NumberSequence1D :: "pyval \<Rightarrow> error + bool"
  is_NumberSequence2D :: "pyval \<Rightarrow> error + bool"
  cast_to_numpy :: "pyval \<Rightarrow> error + pyval"
  reprlib_repr :: "heap \<Rightarrow> addr \<Rightarrow> string"

text \<open>The body of the \<open>try\<close> statement of \<open>__new__\<close>, branch by branch.\<close>

definition new_try :: "helpers \<Rightarrow> heap \<Rightarrow> addr \<Rightarrow> error + addr \<times> heap" where
  "new_try H h a =
     (case deref h a of
        None \<Rightarrow> Inl BadReference
      | Some (Wrap w) \<Rightarrow> Inr (a, h)
      | Some (Data (NdArray s d)) \<Rightarrow> Inr (alloc h (Wrap (NumpyArrayWrapper a)))
      | Some (Data v) \<Rightarrow>
          (case is_NumberSequence1D H v of
             Inl e \<Rightarrow> Inl e
           | Inr True \<Rightarrow> Inr (alloc h (Wrap (Sequence1DWrapper a None)))
           | Inr False \<Rightarrow>
               (case is_NumberSequence2D H v of
                  Inl e \<Rightarrow> Inl e
                | Inr True \<Rightarrow> Inr (alloc h (Wrap (Sequence2DWrapper a None)))
                | Inr False \<Rightarrow>
                    (case is_Number H v of
                       Inl e \<Rightarrow> Inl e
                     | Inr True \<Rightarrow> Inr (alloc h (Wrap (NumberWrapper a)))
                     | Inr False \<Rightarrow>
                         (case cast_to_numpy H v of
                            Inl e \<Rightarrow> Inl e
                          | Inr arr \<Rightarrow>
                              (let (a', h') = alloc h (Data arr)
                               in Inr (alloc h' (Wrap (NumpyArrayWrapper a')))))))))"

text \<open>
  The exception of the \<open>except\<close> clause,
  \<open>ValueError(f"The following array is not valid:\n\t{reprlib.repr(_array)}")\<close>.
\<close>

definition not_valid :: "string \<Rightarrow> error" where
  "not_valid r = ValueError (''The following array is not valid:'' @ [CHR 0x0A, CHR 0x09] @ r)"

text \<open>\<open>__new__\<close>: the \<open>try\<close> body under \<open>except (ValueError, TypeError)\<close>.\<close>

definition new :: "helpers \<Rightarrow> heap \<Rightarrow> addr \<Rightarrow> error + addr \<times> heap" where
  "new H h a =
     (case new_try H h a of
        Inl (ValueError m) \<Rightarrow> Inl (not_valid (reprlib_repr H h a))
      | Inl (TypeError m) \<Rightarrow> Inl (not_valid (reprlib_repr H h a))
      | Inl e \<Rightarrow> Inl e
      | Inr r \<Rightarrow> Inr r)"

text \<open>
  Modelled from the spec: the type guards \<open>_is_Number\<close>, \<open>_is_NumberSequence1D\<close>,
  \<open>_is_NumberSequence2D\<close> and the function \<open>_cast_to_numpy\<close> are missing from the
  sources. The docstring of \<open>__new__\<close> names their inputs: scalar dtypes, 1D numeric
  sequences, 2D numeric nested sequences, and for the cast every other array-like input
  (deeper nestings, sequences of arrays). This instance follows those words; it is used
  where a concrete instance of the parameters is needed. For \<open>reprlib.repr\<close> it has
  the text of an ellipsis for every object.
\<close>

fun is_num :: "pyval \<Rightarrow> bool" where
  "is_num (Num n) = True"
| "is_num v = False"

fun is_seq1d :: "pyval \<Rightarrow> bool" where
  "is_seq1d (Seq c xs) = list_all is_num xs"
| "is_seq1d v = False"

fun is_seq2d :: "pyval \<Rightarrow> bool" where
  "is_seq2d (Seq c rows) = list_all is_seq1d rows"
| "is_seq2d v = False"

fun np_shape :: "pyval \<Rightarrow> (nat list) option" where
  "np_shape (Num n) = Some []"
| "np_shape (NdArray s d) = Some s"
| "np_shape (Opaque n) = None"
| "np_shape (Seq c []) = Some [0]"
| "np_shape (Seq c (x # xs)) =
     (case np_shape x of
        None \<Rightarrow> None
      | Some s \<Rightarrow>
          if list_all (\<lambda>y. np_shape y = Some s) xs then Some (Suc (length xs) # s)
          else None)"

fun np_items :: "pyval \<Rightarrow> number list" where
  "np_items (Num n) = [n]"
| "np_items (NdArray s d) = d"
| "np_items (Opaque n) = []"
| "np_items (Seq c xs) = concat (map np_items xs)"

definition spec_cast_to_numpy :: "pyval \<Rightarrow> error + pyval" where
  "spec_cast_to_numpy v =
     (case np_shape v of
        None \<Rightarrow> Inl (ValueError ''Input cannot be cast as numpy.ndarray'')
      | Some s \<Rightarrow> Inr (NdArray s (np_items v)))"

definition spec_helpers :: helpers where
  "spec_helpers =
     \<lparr> is_Number = (\<lambda>v. Inr (is_num v)),
       is_NumberSequence1D = (\<lambda>v. Inr (is_seq1d v)),
       is_NumberSequence2D = (\<lambda>v. Inr (is_seq2d v)),
       cast_to_numpy = spec_cast_to_numpy,
       reprlib_repr = (\<lambda>h a. ''...'') \<rparr>"

section \<open>Properties of \<open>__new__\<close>\<close>

lemma deref_append_old: "deref h a = Some ob \<Longrightarrow> deref (h @ xs) a = Some ob"
  by (auto simp: deref_def nth_append split: if_splits)

lemma deref_append_new: "deref (h @ [ob]) (length h) = Some ob"
  by (simp add: deref_def)

text \<open>
  C1. \<open>_ArrayLikeWrapper.__new__\<close> dispatches on the input: an input that is already
  a wrapper is returned unchanged (the same address, no new object); a NumPy array is
  wrapped as it is in a \<open>_NumpyArrayWrapper\<close>; a 1D numeric sequence in a
  \<open>_Sequence1DWrapper\<close>; a 2D nested numeric sequence in a \<open>_Sequence2DWrapper\<close>; a
  scalar number in a \<open>_NumberWrapper\<close>; and every other input is converted by
  \<open>_cast_to_numpy\<close> and the new array is wrapped in a \<open>_NumpyArrayWrapper\<close>. "Wrapped
  as it is": the \<open>_array\<close> of the new wrapper is the address of the input. The kinds of
  input are the ones the type guards tell apart, in the order of the \<open>elif\<close> chain.
\<close>

theorem new_dispatch:
  "(deref h a = Some (Wrap w) \<longrightarrow> new H h a = Inr (a, h))
   \<and> (deref h a = Some (Data (NdArray s d)) \<longrightarrow>
        new H h a = Inr (length h, h @ [Wrap (NumpyArrayWrapper a)]))
   \<and> (deref h a = Some (Data v) \<and> (\<forall>s d. v \<noteq> NdArray s d) \<longrightarrow>
        (is_NumberSequence1D H v = Inr True \<longrightarrow>
           new H h a = Inr (length h, h @ [Wrap (Sequence1DWrapper a None)]))
      \<and> (is_NumberSequence1D H v = Inr False \<and> is_NumberSequence2D H v = Inr True \<longrightarrow>
           new H h a = Inr (length h, h @ [Wrap (Sequence2DWrapper a None)]))
      \<and> (is_NumberSequence1D H v = Inr False \<and> is_NumberSequence2D H v = Inr False
           \<and> is_Number H v = Inr True \<longrightarrow>
           new H h a = Inr (length h, h @ [Wrap (NumberWrapper a)]))
      \<and> (is_NumberSequence1D H v = Inr False \<and> is_NumberSequence2D H v = Inr False
           \<and> is_Number H v = Inr False \<and> cast_to_numpy H v = Inr arr \<longrightarrow>
           new H h a = Inr (Suc (length h),
                            h @ [Data arr, Wrap (NumpyArrayWrapper (length h))])))"
  by (cases v) (auto simp: new_def new_try_def alloc_def)

theorem new_dispatch_witness:
  "new spec_helpers [Wrap (NumberWrapper 7)] 0 = Inr (0, [Wrap (NumberWrapper 7)])
   \<and> new spec_helpers [Data (NdArray [2] [PInt 1, PInt 2])] 0
       = Inr (1, [Data (NdArray [2] [PInt 1, PInt 2]), Wrap (NumpyArrayWrapper 0)])
   \<and> new spec_helpers [Data (Seq PyList [Num (PInt 1), Num (PInt 2)])] 0
       = Inr (1, [Data (Seq PyList [Num (PInt 1), Num (PInt 2)]), Wrap (Sequence1DWrapper 0 None)])
   \<and> new spec_helpers [Data (Seq PyTuple [Seq PyList [Num (PInt 1)], Seq PyList [Num (PInt 2)]])] 0
       = Inr (1, [Data (Seq PyTuple [Seq PyList [Num (PInt 1)], Seq PyList [Num (PInt 2)]]),
                  Wrap (Sequence2DWrapper 0 None)])
   \<and> new spec_helpers [Data (Num (PFloat (Finite 2)))] 0
       = Inr (1, [Data (Num (PFloat (Finite 2))), Wrap (NumberWrapper 0)])
   \<and> new spec_helpers [Data (Seq PyList [Seq PyList [Seq PyList [Num (PInt 1)]]])] 0
       = Inr (2, [Data (Seq PyList [Seq PyList [Seq PyList [Num (PInt 1)]]]),
                  Data (NdArray [1, 1, 1] [PInt 1]), Wrap (NumpyArrayWrapper 1)])"
proof -
  have 1: "new spec_helpers [Wrap (NumberWrapper 7)] 0 = Inr (0, [Wrap (NumberWrapper 7)])"
    using new_dispatch [where h = "[Wrap (NumberWrapper 7)]" and a = 0 and w = "NumberWrapper 7"
                          and H = spec_helpers]
    by (simp add: deref_def)
  have 2: "new spec_helpers [Data (NdArray [2] [PInt 1, PInt 2])] 0
       = Inr (1, [Data (NdArray [2] [PInt 1, PInt 2]), Wrap (NumpyArrayWrapper 0)])"
    using new_dispatch [where h = "[Data (NdArray [2] [PInt 1, PInt 2])]" and a = 0
                          and s = "[2]" and d = "[PInt 1, PInt 2]" and H = spec_helpers]
    by (simp add: deref_def)
  have 3: "new spec_helpers [Data (Seq PyList [Num (PInt 1), Num (PInt 2)])] 0
       = Inr (1, [Data (Seq PyList [Num (PInt 1), Num (PInt 2)]), Wrap (Sequence1DWrapper 0 None)])"
    using new_dispatch [where h = "[Data (Seq PyList [Num (PInt 1), Num (PInt 2)])]" and a = 0
                          and v = "Seq PyList [Num (PInt 1), Num (PInt 2)]" and H = spec_helpers]
    by (simp add: deref_def spec_helpers_def)
  have 4: "new spec_helpers [Data (Seq PyTuple [Seq PyList [Num (PInt 1)], Seq PyList [Num (PInt 2)]])] 0
       = Inr (1, [Data (Seq PyTuple [Seq PyList [Num (PInt 1)], Seq PyList [Num (PInt 2)]]),
                  Wrap (Sequence2DWrapper 0 None)])"
    using new_dispatch [where h = "[Data (Seq PyTuple [Seq PyList [Num (PInt 1)], Seq PyList [Num (PInt 2)]])]"
                          and a = 0
                          and v = "Seq PyTuple [Seq PyList [Num (PInt 1)], Seq PyList [Num (PInt 2)]]"
                          and H = spec_helpers]
    by (simp add: deref_def spec_helpers_def)
  have 5: "new spec_helpers [Data (Num (PFloat (Finite 2)))] 0
       = Inr (1, [Data (Num (PFloat (Finite 2))), Wrap (NumberWrapper 0)])"
    using new_dispatch [where h = "[Data (Num (PFloat (Finite 2)))]" and a = 0
                          and v = "Num (PFloat (Finite 2))" and H = spec_helpers]
    by (simp add: deref_def spec_helpers_def)
  have 6: "new spec_helpers [Data (Seq PyList [Seq PyList [Seq PyList [Num (PInt 1)]]])] 0
       = Inr (2, [Data (Seq PyList [Seq PyList [Seq PyList [Num (PInt 1)]]]),
                  Data (NdArray [1, 1, 1] [PInt 1]), Wrap (NumpyArrayWrapper 1)])"
    using new_dispatch [where h = "[Data (Seq PyList [Seq PyList [Seq PyList [Num (PInt 1)]]])]"
                          and a = 0
                          and v = "Seq PyList [Seq PyList [Seq PyList [Num (PInt 1)]]]"
                          and arr = "NdArray [1, 1, 1] [PInt 1]"
                          and H = spec_helpers]
    by (simp add: deref_def spec_helpers_def spec_cast_to_numpy_def)
  from 1 2 3 4 5 6 show ?thesis by blast
qed


lemma new_try_Inr:
  "new_try H h a = Inr (w, h') \<Longrightarrow>
     (\<exists>wr. deref h' w = Some (Wrap wr)) \<and> take (length h) h' = h \<and> length h \<le> length h'"
  by (auto simp: new_try_def alloc_def deref_def nth_append
           split: option.splits obj.splits pyval.splits sum.splits bool.splits if_splits)

lemma new_Inr: "new H h a = Inr r \<longleftrightarrow> new_try H h a = Inr r"
  by (auto simp: new_def split: sum.splits error.splits)







text \<open>
  C3. Wrapping is idempotent: when \<open>_ArrayLikeWrapper(x)\<close> succeeds with the wrapper
  \<open>w\<close>, \<open>_ArrayLikeWrapper(w)\<close> returns \<open>w\<close> itself and creates nothing. No object
  that existed before the call is changed, and when \<open>x\<close> is a plain value wrapped by one
  of the three built-in wrappers (scalar, 1D sequence, 2D nested sequence), the
  \<open>_array\<close> of the wrapper is the address of \<open>x\<close> and \<open>x\<close> still holds its value.
\<close>

theorem new_idempotent:
  assumes "new H h a = Inr (w, h')"
  shows "new H h' w = Inr (w, h')
     \<and> take (length h) h' = h
     \<and> (\<forall>v wr. deref h a = Some (Data v) \<and> deref h' w = Some (Wrap wr)
            \<and> is_builtin_wrapper wr \<longrightarrow> array_of wr = a \<and> deref h' a = Some (Data v))"
proof -
  from assms have t: "new_try H h a = Inr (w, h')" by (simp add: new_Inr)
  from new_try_Inr [OF t] obtain wr where wr: "deref h' w = Some (Wrap wr)"
    and tk: "take (length h) h' = h" by blast
  have 1: "new H h' w = Inr (w, h')"
    using wr by (simp add: new_def new_try_def)
  have 3: "array_of wr' = a \<and> deref h' a = Some (Data v)"
    if "deref h a = Some (Data v)" "deref h' w = Some (Wrap wr')" "is_builtin_wrapper wr'" for v wr'
    using t that
    by (auto simp: new_try_def alloc_def deref_def nth_append
           split: option.splits obj.splits pyval.splits sum.splits bool.splits if_splits)
  from 1 tk 3 show ?thesis by blast
qed

theorem new_idempotent_witness:
  "new spec_helpers [Data (Num (PInt 5))] 0
       = Inr (1, [Data (Num (PInt 5)), Wrap (NumberWrapper 0)])
   \<and> new spec_helpers [Data (Num (PInt 5)), Wrap (NumberWrapper 0)] 1
       = Inr (1, [Data (Num (PInt 5)), Wrap (NumberWrapper 0)])"
proof -
  have n: "new spec_helpers [Data (Num (PInt 5))] 0
       = Inr (1, [Data (Num (PInt 5)), Wrap (NumberWrapper 0)])"
    by (simp add: new_def new_try_def deref_def alloc_def spec_helpers_def)
  from new_idempotent [OF n] n show ?thesis by blast
qed

section \<open>\<open>shape\<close>, \<open>ndim\<close> and \<open>size\<close>\<close>

text \<open>
  \<open>self._array\<close> read as a value. A wrapper made by \<open>__new__\<close> never holds another
  wrapper; \<open>len\<close> of one would raise \<open>TypeError\<close>.
\<close>

definition array_value :: "heap \<Rightarrow> addr \<Rightarrow> error + pyval" where
  "array_value h a =
     (case deref h a of
        None \<Rightarrow> Inl BadReference
      | Some (Wrap w) \<Rightarrow> Inl (TypeError ''wrapper'')
      | Some (Data v) \<Rightarrow> Inr v)"

text \<open>\<open>len(v)\<close> and \<open>v[0]\<close> on the values of the model.\<close>

fun py_len :: "pyval \<Rightarrow> error + nat" where
  "py_len (Seq c xs) = Inr (length xs)"
| "py_len (NdArray [] d) = Inl (TypeError ''len() of unsized object'')"
| "py_len (NdArray (n # s) d) = Inr n"
| "py_len (Num n) = Inl (TypeError ''object has no len()'')"
| "py_len (Opaque n) = Inl (TypeError ''object has no len()'')"

fun py_first :: "pyval \<Rightarrow> error + pyval" where
  "py_first (Seq c []) = Inl IndexError"
| "py_first (Seq c (x # xs)) = Inr x"
| "py_first (NdArray [] d) = Inl IndexError"
| "py_first (NdArray (n # s) d) =
     (if n = 0 then Inl IndexError else Inr (NdArray s (take (prod_list s) d)))"
| "py_first (Num n) = Inl (TypeError ''object is not subscriptable'')"
| "py_first (Opaque n) = Inl (TypeError ''object is not subscriptable'')"

text \<open>
  The properties \<open>shape\<close>, \<open>ndim\<close> and \<open>size\<close> of the three built-in wrappers. A
  \<open>_NumpyArrayWrapper\<close> defines none of them: \<open>__getattr__\<close> forwards the read to the
  array, whose \<open>shape\<close> is its shape, whose \<open>ndim\<close> is the number of its axes and
  whose \<open>size\<close> is the number of its items.
\<close>

definition shape2 :: "pyval \<Rightarrow> error + nat \<times> nat" where
  "shape2 v =
     (case py_len v of
        Inl e \<Rightarrow> Inl e
      | Inr r \<Rightarrow>
          (case py_first v of
             Inl e \<Rightarrow> Inl e
           | Inr row \<Rightarrow> (case py_len row of Inl e \<Rightarrow> Inl e | Inr c \<Rightarrow> Inr (r, c))))"

definition shape :: "heap \<Rightarrow> wrapper \<Rightarrow> error + nat list" where
  "shape h w =
     (case w of
        NumberWrapper a \<Rightarrow> Inr []
      | Sequence1DWrapper a d \<Rightarrow>
          (case array_value h a of
             Inl e \<Rightarrow> Inl e
           | Inr v \<Rightarrow> (case py_len v of Inl e \<Rightarrow> Inl e | Inr n \<Rightarrow> Inr [n]))
      | Sequence2DWrapper a d \<Rightarrow>
          (case array_value h a of
             Inl e \<Rightarrow> Inl e
           | Inr v \<Rightarrow> (case shape2 v of Inl e \<Rightarrow> Inl e | Inr (r, c) \<Rightarrow> Inr [r, c]))
      | NumpyArrayWrapper a \<Rightarrow>
          (case array_value h a of
             Inr (NdArray s d) \<Rightarrow> Inr s
           | Inr v \<Rightarrow> Inl AttributeError
           | Inl e \<Rightarrow> Inl e))"

definition ndim :: "heap \<Rightarrow> wrapper \<Rightarrow> error + nat" where
  "ndim h w =
     (case w of
        NumberWrapper a \<Rightarrow> Inr 0
      | Sequence1DWrapper a d \<Rightarrow> Inr 1
      | Sequence2DWrapper a d \<Rightarrow> Inr 2
      | NumpyArrayWrapper a \<Rightarrow>
          (case array_value h a of
             Inr (NdArray s d) \<Rightarrow> Inr (length s)
           | Inr v \<Rightarrow> Inl AttributeError
           | Inl e \<Rightarrow> Inl e))"

definition size_of :: "heap \<Rightarrow> wrapper \<Rightarrow> error + nat" where
  "size_of h w =
     (case w of
        NumberWrapper a \<Rightarrow> Inr 1
      | Sequence1DWrapper a d \<Rightarrow>
          (case array_value h a of Inl e \<Rightarrow> Inl e | Inr v \<Rightarrow> py_len v)
      | Sequence2DWrapper a d \<Rightarrow>
          (case array_value h a of
             Inl e \<Rightarrow> Inl e
           | Inr v \<Rightarrow> (case shape2 v of Inl e \<Rightarrow> Inl e | Inr (r, c) \<Rightarrow> Inr (r * c)))
      | NumpyArrayWrapper a \<Rightarrow>
          (case array_value h a of
             Inr (NdArray s d) \<Rightarrow> Inr (prod_list s)
           | Inr v \<Rightarrow> Inl AttributeError
           | Inl e \<Rightarrow> Inl e))"

lemma shape_consistent:
  "shape h w = Inr s \<Longrightarrow> ndim h w = Inr (length s) \<and> size_of h w = Inr (prod_list s)"
  by (cases w)
     (auto simp: shape_def ndim_def size_of_def split: sum.splits pyval.splits prod.splits)

text \<open>
  C8. \<open>shape\<close>, \<open>ndim\<close> and \<open>size\<close> agree: whenever a wrapper has a shape,
  \<open>ndim\<close> is the length of the shape and \<open>size\<close> is the product of its entries. A
  \<open>_NumberWrapper\<close> reports shape \<open>()\<close>, \<open>ndim\<close> 0 and \<open>size\<close> 1; a
  \<open>_Sequence1DWrapper\<close> of a sequence of length \<open>n\<close> reports \<open>(n,)\<close>, 1 and \<open>n\<close>;
  a \<open>_Sequence2DWrapper\<close> of \<open>r\<close> rows whose first row has length \<open>c\<close> reports
  \<open>(r, c)\<close>, 2 and \<open>r * c\<close>.
\<close>

theorem shape_ndim_size:
  "(shape h w = Inr s \<longrightarrow> ndim h w = Inr (length s) \<and> size_of h w = Inr (prod_list s))
   \<and> (shape h (NumberWrapper a) = Inr [] \<and> ndim h (NumberWrapper a) = Inr 0
        \<and> size_of h (NumberWrapper a) = Inr 1)
   \<and> (deref h a = Some (Data (Seq c xs)) \<longrightarrow>
        shape h (Sequence1DWrapper a d) = Inr [length xs]
        \<and> ndim h (Sequence1DWrapper a d) = Inr 1
        \<and> size_of h (Sequence1DWrapper a d) = Inr (length xs))
   \<and> (deref h a = Some (Data (Seq c (Seq c' row # rows))) \<longrightarrow>
        shape h (Sequence2DWrapper a d) = Inr [Suc (length rows), length row]
        \<and> ndim h (Sequence2DWrapper a d) = Inr 2
        \<and> size_of h (Sequence2DWrapper a d) = Inr (Suc (length rows) * length row))"
proof (intro conjI impI)
  assume "shape h w = Inr s"
  then show "ndim h w = Inr (length s)" "size_of h w = Inr (prod_list s)"
    using shape_consistent by blast+
qed (simp_all add: shape_def ndim_def size_of_def array_value_def shape2_def)

theorem shape_ndim_size_witness:
  "shape [Data (Seq PyList [Seq PyTuple [Num (PInt 1), Num (PInt 2), Num (PInt 3)],
                            Seq PyTuple [Num (PInt 4), Num (PInt 5), Num (PInt 6)]])]
         (Sequence2DWrapper 0 None) = Inr [2, 3]
   \<and> ndim [Data (Seq PyList [Seq PyTuple [Num (PInt 1), Num (PInt 2), Num (PInt 3)],
                            Seq PyTuple [Num (PInt 4), Num (PInt 5), Num (PInt 6)]])]
         (Sequence2DWrapper 0 None) = Inr 2
   \<and> size_of [Data (Seq PyList [Seq PyTuple [Num (PInt 1), Num (PInt 2), Num (PInt 3)],
                            Seq PyTuple [Num (PInt 4), Num (PInt 5), Num (PInt 6)]])]
         (Sequence2DWrapper 0 None) = Inr 6
   \<and> shape [Data (Seq PyList [Num (PInt 1), Num (PInt 2)])] (Sequence1DWrapper 0 None) = Inr [2]
   \<and> size_of [Data (Seq PyList [Num (PInt 1), Num (PInt 2)])] (Sequence1DWrapper 0 None) = Inr 2"
proof -
  let ?h = "[Data (Seq PyList [Seq PyTuple [Num (PInt 1), Num (PInt 2), Num (PInt 3)],
                            Seq PyTuple [Num (PInt 4), Num (PInt 5), Num (PInt 6)]])]"
  have a: "shape ?h (Sequence2DWrapper 0 None) = Inr [2, 3]
      \<and> ndim ?h (Sequence2DWrapper 0 None) = Inr 2
      \<and> size_of ?h (Sequence2DWrapper 0 None) = Inr 6"
    using shape_ndim_size [where h = ?h and a = 0 and c = PyList and c' = PyTuple
             and row = "[Num (PInt 1), Num (PInt 2), Num (PInt 3)]"
             and rows = "[Seq PyTuple [Num (PInt 4), Num (PInt 5), Num (PInt 6)]]"
             and d = None]
    by (simp add: deref_def)
  have b: "shape [Data (Seq PyList [Num (PInt 1), Num (PInt 2)])] (Sequence1DWrapper 0 None) = Inr [2]
   \<and> size_of [Data (Seq PyList [Num (PInt 1), Num (PInt 2)])] (Sequence1DWrapper 0 None) = Inr 2"
    using shape_ndim_size [where h = "[Data (Seq PyList [Num (PInt 1), Num (PInt 2)])]" and a = 0
             and c = PyList and xs = "[Num (PInt 1), Num (PInt 2)]" and d = None]
    by (simp add: deref_def)
  from a b show ?thesis by blast
qed

section \<open>\<open>change_dtype\<close>\<close>

text \<open>
  \<open>dtype(x)\<close>, the call of a type object on a value, and \<open>ndarray.astype\<close> are not
  code of this repository: they are parameters of the model.
\<close>

record runtime =
  call_type :: "pytype \<Rightarrow> pyval \<Rightarrow> error + pyval"
  astype :: "pyval \<Rightarrow> pytype \<Rightarrow> error + pyval"

text \<open>
  A generator expression \<open>f(x) for x in xs\<close> consumed by a constructor: the items from
  left to right, and the first exception ends it.
\<close>

fun map_raising :: "('a \<Rightarrow> error + 'b) \<Rightarrow> 'a list \<Rightarrow> error + 'b list" where
  "map_raising f [] = Inr []"
| "map_raising f (x # xs) =
     (case f x of
        Inl e \<Rightarrow> Inl e
      | Inr y \<Rightarrow> (case map_raising f xs of Inl e \<Rightarrow> Inl e | Inr ys \<Rightarrow> Inr (y # ys)))"

text \<open>
  \<open>v.__class__(dtype(x) for x in v)\<close>: a list gives a list and a tuple a tuple. A
  number is not iterable, and the class of an array does not take a generator.
\<close>

fun rebuild :: "(pyval \<Rightarrow> error + pyval) \<Rightarrow> pyval \<Rightarrow> error + pyval" where
  "rebuild f (Seq c xs) =
     (case map_raising f xs of Inl e \<Rightarrow> Inl e | Inr ys \<Rightarrow> Inr (Seq c ys))"
| "rebuild f (Num n) = Inl (TypeError ''object is not iterable'')"
| "rebuild f (NdArray s d) = Inl (TypeError ''expected a sequence of integers'')"
| "rebuild f (Opaque n) = Inl (TypeError ''object is not iterable'')"

definition change_dtype :: "runtime \<Rightarrow> heap \<Rightarrow> addr \<Rightarrow> pytype \<Rightarrow> error + heap" where
  "change_dtype R h w dtype =
     (case deref h w of
        Some (Wrap (NumberWrapper a)) \<Rightarrow>
          (case array_value h a of
             Inl e \<Rightarrow> Inl e
           | Inr v \<Rightarrow>
               if type_of v = dtype then Inr h
               else (case call_type R dtype v of
                       Inl e \<Rightarrow> Inl e
                     | Inr v' \<Rightarrow>
                         (let (a', h') = alloc h (Data v')
                          in Inr (h'[w := Wrap (NumberWrapper a')]))))
      | Some (Wrap (Sequence1DWrapper a d)) \<Rightarrow>
          (case array_value h a of
             Inl e \<Rightarrow> Inl e
           | Inr v \<Rightarrow>
               (case rebuild (call_type R dtype) v of
                  Inl e \<Rightarrow> Inl e
                | Inr v' \<Rightarrow>
                    (let (a', h') = alloc h (Data v')
                     in Inr (h'[w := Wrap (Sequence1DWrapper a' (Some dtype))]))))
      | Some (Wrap (Sequence2DWrapper a d)) \<Rightarrow>
          (case array_value h a of
             Inl e \<Rightarrow> Inl e
           | Inr v \<Rightarrow>
               (case rebuild (rebuild (call_type R dtype)) v of
                  Inl e \<Rightarrow> Inl e
                | Inr out \<Rightarrow>
                    (let (a', h') = alloc h (Data out)
                     in Inr (h'[w := Wrap (Sequence2DWrapper a' (Some dtype))]))))
      | Some (Wrap (NumpyArrayWrapper a)) \<Rightarrow>
          (case array_value h a of
             Inl e \<Rightarrow> Inl e
           | Inr v \<Rightarrow>
               (case astype R v dtype of
                  Inl e \<Rightarrow> Inl e
                | Inr v' \<Rightarrow>
                    (let (a', h') = alloc h (Data v')
                     in Inr (h'[w := Wrap (NumpyArrayWrapper a')]))))
      | Some (Data v) \<Rightarrow> Inl AttributeError
      | None \<Rightarrow> Inl BadReference)"

lemma map_raising_Inr:
  "map_raising f xs = Inr ys \<longleftrightarrow> list_all2 (\<lambda>x y. f x = Inr y) xs ys"
proof (induction xs arbitrary: ys)
  case Nil
  then show ?case by auto
next
  case (Cons x xs)
  have "map_raising f (x # xs) = Inr ys \<longleftrightarrow>
          (\<exists>y ys'. f x = Inr y \<and> map_raising f xs = Inr ys' \<and> ys = y # ys')"
    by (auto split: sum.splits)
  also have "\<dots> \<longleftrightarrow> (\<exists>y ys'. ys = y # ys' \<and> f x = Inr y
                                \<and> list_all2 (\<lambda>x y. f x = Inr y) xs ys')"
    using Cons.IH by blast
  finally show ?case
    by (simp add: list_all2_Cons1)
qed

lemma deref_update_same:
  "w < length h \<Longrightarrow> deref (h[w := ob]) w = Some ob"
  by (simp add: deref_def)

text \<open>The rows of a 2D sequence, converted one by one, each in its own class.\<close>

definition converted_row :: "(pyval \<Rightarrow> error + pyval) \<Rightarrow> pyval \<Rightarrow> pyval \<Rightarrow> bool" where
  "converted_row f row row' \<longleftrightarrow>
     (\<exists>c xs ys. row = Seq c xs \<and> row' = Seq c ys \<and> list_all2 (\<lambda>x y. f x = Inr y) xs ys)"

lemma rebuild_Inr:
  "rebuild f v = Inr v' \<longleftrightarrow>
     (\<exists>c xs ys. v = Seq c xs \<and> v' = Seq c ys \<and> list_all2 (\<lambda>x y. f x = Inr y) xs ys)"
proof (cases v)
  case (Seq c xs)
  have "rebuild f (Seq c xs) = Inr v' \<longleftrightarrow> (\<exists>ys. map_raising f xs = Inr ys \<and> v' = Seq c ys)"
    by (auto split: sum.splits)
  with Seq show ?thesis
    by (auto simp: map_raising_Inr)
qed simp_all

lemma rebuild_row: "rebuild f row = Inr row' \<longleftrightarrow> converted_row f row row'"
  by (simp add: rebuild_Inr converted_row_def)

lemma converted_rows_shape2:
  assumes "list_all2 (converted_row f) rows rows'"
  shows "shape2 (Seq c rows') = shape2 (Seq c rows)"
proof (cases rows)
  case Nil
  with assms show ?thesis by (simp add: shape2_def)
next
  case (Cons r rs)
  with assms obtain r' rs' where rows': "rows' = r' # rs'" and r: "converted_row f r r'"
    and rs: "list_all2 (converted_row f) rs rs'"
    by (auto simp: list_all2_Cons1)
  from rs have "length rs' = length rs" by (simp add: list_all2_lengthD)
  moreover from r have "py_len r' = py_len r"
    by (auto simp: converted_row_def dest: list_all2_lengthD)
  ultimately show ?thesis using Cons rows' by (simp add: shape2_def)
qed

text \<open>
  C10. \<open>change_dtype\<close> keeps the container and the shape. For a
  \<open>_Sequence1DWrapper\<close> of a sequence \<open>xs\<close> of class \<open>c\<close>, when \<open>dtype(x)\<close>
  returns for every element, the call returns, the new \<open>_array\<close> is a sequence of the
  same class \<open>c\<close> holding \<open>dtype(x)\<close> for each \<open>x\<close> in order, the shape is the same and
  \<open>_dtype\<close> is \<open>dtype\<close>. The same for a \<open>_Sequence2DWrapper\<close>, where every row keeps
  its own class too. For a \<open>_NumberWrapper\<close> whose \<open>dtype\<close> is the requested one,
  nothing changes at all.
\<close>

theorem change_dtype_preserves:
  "(deref h w = Some (Wrap (Sequence1DWrapper a d)) \<and> deref h a = Some (Data (Seq c xs))
      \<and> list_all2 (\<lambda>x y. call_type R dtype x = Inr y) xs ys \<longrightarrow>
      (\<exists>h'. change_dtype R h w dtype = Inr h'
         \<and> deref h' w = Some (Wrap (Sequence1DWrapper (length h) (Some dtype)))
         \<and> deref h' (length h) = Some (Data (Seq c ys))
         \<and> shape h' (Sequence1DWrapper (length h) (Some dtype))
             = shape h (Sequence1DWrapper a d)))
   \<and> (deref h w = Some (Wrap (Sequence2DWrapper a d)) \<and> deref h a = Some (Data (Seq c rows))
      \<and> list_all2 (converted_row (call_type R dtype)) rows rows' \<longrightarrow>
      (\<exists>h'. change_dtype R h w dtype = Inr h'
         \<and> deref h' w = Some (Wrap (Sequence2DWrapper (length h) (Some dtype)))
         \<and> deref h' (length h) = Some (Data (Seq c rows'))
         \<and> shape h' (Sequence2DWrapper (length h) (Some dtype))
             = shape h (Sequence2DWrapper a d)))
   \<and> (deref h w = Some (Wrap (NumberWrapper a)) \<and> deref h a = Some (Data v)
      \<and> type_of v = dtype \<longrightarrow>
      change_dtype R h w dtype = Inr h)"
proof (intro conjI impI)
  assume asm: "deref h w = Some (Wrap (Sequence1DWrapper a d)) \<and> deref h a = Some (Data (Seq c xs))
      \<and> list_all2 (\<lambda>x y. call_type R dtype x = Inr y) xs ys"
  then have w: "w < length h" by (auto simp: deref_def split: if_splits)
  from asm have m: "map_raising (call_type R dtype) xs = Inr ys"
    by (simp add: map_raising_Inr)
  from asm have len: "length ys = length xs" by (auto dest: list_all2_lengthD)
  let ?h' = "(h @ [Data (Seq c ys)])[w := Wrap (Sequence1DWrapper (length h) (Some dtype))]"
  have 1: "change_dtype R h w dtype = Inr ?h'"
    using asm m by (simp add: change_dtype_def array_value_def alloc_def)
  have 2: "deref ?h' w = Some (Wrap (Sequence1DWrapper (length h) (Some dtype)))"
    using w by (simp add: deref_def)
  have 3: "deref ?h' (length h) = Some (Data (Seq c ys))"
    using w by (simp add: deref_def)
  have 4: "shape ?h' (Sequence1DWrapper (length h) (Some dtype)) = shape h (Sequence1DWrapper a d)"
    using asm 3 len by (simp add: shape_def array_value_def)
  from 1 2 3 4
  show "\<exists>h'. change_dtype R h w dtype = Inr h'
         \<and> deref h' w = Some (Wrap (Sequence1DWrapper (length h) (Some dtype)))
         \<and> deref h' (length h) = Some (Data (Seq c ys))
         \<and> shape h' (Sequence1DWrapper (length h) (Some dtype))
             = shape h (Sequence1DWrapper a d)"
    by blast
next
  assume asm: "deref h w = Some (Wrap (Sequence2DWrapper a d)) \<and> deref h a = Some (Data (Seq c rows))
      \<and> list_all2 (converted_row (call_type R dtype)) rows rows'"
  then have w: "w < length h" by (auto simp: deref_def split: if_splits)
  from asm have "list_all2 (\<lambda>r r'. rebuild (call_type R dtype) r = Inr r') rows rows'"
    by (simp add: rebuild_row)
  then have m: "map_raising (rebuild (call_type R dtype)) rows = Inr rows'"
    by (simp add: map_raising_Inr)
  let ?h' = "(h @ [Data (Seq c rows')])[w := Wrap (Sequence2DWrapper (length h) (Some dtype))]"
  have 1: "change_dtype R h w dtype = Inr ?h'"
    using asm m by (simp add: change_dtype_def array_value_def alloc_def)
  have 2: "deref ?h' w = Some (Wrap (Sequence2DWrapper (length h) (Some dtype)))"
    using w by (simp add: deref_def)
  have 3: "deref ?h' (length h) = Some (Data (Seq c rows'))"
    using w by (simp add: deref_def)
  have "shape2 (Seq c rows') = shape2 (Seq c rows)"
    using asm converted_rows_shape2 by blast
  then have 4: "shape ?h' (Sequence2DWrapper (length h) (Some dtype)) = shape h (Sequence2DWrapper a d)"
    using asm 3 by (simp add: shape_def array_value_def)
  from 1 2 3 4
  show "\<exists>h'. change_dtype R h w dtype = Inr h'
         \<and> deref h' w = Some (Wrap (Sequence2DWrapper (length h) (Some dtype)))
         \<and> deref h' (length h) = Some (Data (Seq c rows'))
         \<and> shape h' (Sequence2DWrapper (length h) (Some dtype))
             = shape h (Sequence2DWrapper a d)"
    by blast
next
  assume "deref h w = Some (Wrap (NumberWrapper a)) \<and> deref h a = Some (Data v)
      \<and> type_of v = dtype"
  then show "change_dtype R h w dtype = Inr h"
    by (simp add: change_dtype_def array_value_def)
qed

text \<open>
  An instance of the runtime for the three built-in numeric types applied to numbers,
  used where a concrete instance is needed: \<open>bool(x)\<close> is \<open>x != 0\<close>, \<open>int(x)\<close>
  truncates towards zero, \<open>float(x)\<close> keeps the value. What it leaves out (an integer
  too large to be a float without rounding, a value that is not a number, a type that
  is not built in, \<open>astype\<close>) is the error \<open>OtherError ''not modelled''\<close>.
\<close>

fun number_value :: "number \<Rightarrow> pyfloat" where
  "number_value (PBool b) = Finite (if b then 1 else 0)"
| "number_value (PInt i) = Finite (of_int i)"
| "number_value (PFloat f) = f"
| "number_value (PNumpy n f) = f"

fun builtin_call :: "pytype \<Rightarrow> pyval \<Rightarrow> error + pyval" where
  "builtin_call TBool (Num n) = Inr (Num (PBool (number_value n \<noteq> Finite 0)))"
| "builtin_call TInt (Num n) =
     (case number_value n of
        Finite r \<Rightarrow> Inr (Num (PInt (if 0 \<le> r then \<lfloor>r\<rfloor> else \<lceil>r\<rceil>)))
      | NaN \<Rightarrow> Inl (ValueError ''cannot convert float NaN to integer'')
      | PosInf \<Rightarrow> Inl OverflowError
      | NegInf \<Rightarrow> Inl OverflowError)"
| "builtin_call TFloat (Num (PInt i)) =
     (if \<bar>i\<bar> \<le> 2 ^ 53 then Inr (Num (PFloat (Finite (of_int i))))
      else Inl (OtherError ''not modelled''))"
| "builtin_call TFloat (Num n) = Inr (Num (PFloat (number_value n)))"
| "builtin_call t v = Inl (OtherError ''not modelled'')"

definition builtin_runtime :: runtime where
  "builtin_runtime =
     \<lparr> call_type = builtin_call, astype = (\<lambda>v t. Inl (OtherError ''not modelled'')) \<rparr>"

theorem change_dtype_preserves_witness:
  "change_dtype builtin_runtime
      [Data (Seq PyList [Num (PBool True), Num (PInt 2)]), Wrap (Sequence1DWrapper 0 None)] 1 TInt
     = Inr [Data (Seq PyList [Num (PBool True), Num (PInt 2)]),
            Wrap (Sequence1DWrapper 2 (Some TInt)),
            Data (Seq PyList [Num (PInt 1), Num (PInt 2)])]
   \<and> change_dtype builtin_runtime
      [Data (Seq PyTuple [Seq PyList [Num (PInt 0)], Seq PyList [Num (PInt 7)]]),
       Wrap (Sequence2DWrapper 0 None)] 1 TBool
     = Inr [Data (Seq PyTuple [Seq PyList [Num (PInt 0)], Seq PyList [Num (PInt 7)]]),
            Wrap (Sequence2DWrapper 2 (Some TBool)),
            Data (Seq PyTuple [Seq PyList [Num (PBool False)], Seq PyList [Num (PBool True)]])]
   \<and> change_dtype builtin_runtime [Data (Num (PInt 3)), Wrap (NumberWrapper 0)] 1 TInt
     = Inr [Data (Num (PInt 3)), Wrap (NumberWrapper 0)]"
proof -
  let ?h1 = "[Data (Seq PyList [Num (PBool True), Num (PInt 2)]), Wrap (Sequence1DWrapper 0 None)]"
  let ?h2 = "[Data (Seq PyTuple [Seq PyList [Num (PInt 0)], Seq PyList [Num (PInt 7)]]),
              Wrap (Sequence2DWrapper 0 None)]"
  let ?h3 = "[Data (Num (PInt 3)), Wrap (NumberWrapper 0)]"
  have c1: "list_all2 (\<lambda>x y. call_type builtin_runtime TInt x = Inr y)
              [Num (PBool True), Num (PInt 2)] [Num (PInt 1), Num (PInt 2)]"
    by (simp add: builtin_runtime_def)
  have c2: "list_all2 (converted_row (call_type builtin_runtime TBool))
              [Seq PyList [Num (PInt 0)], Seq PyList [Num (PInt 7)]]
              [Seq PyList [Num (PBool False)], Seq PyList [Num (PBool True)]]"
    by (simp add: builtin_runtime_def converted_row_def)
  have d1: "deref ?h1 1 = Some (Wrap (Sequence1DWrapper 0 None))
            \<and> deref ?h1 0 = Some (Data (Seq PyList [Num (PBool True), Num (PInt 2)]))"
    by (simp add: deref_def)
  have d2: "deref ?h2 1 = Some (Wrap (Sequence2DWrapper 0 None))
            \<and> deref ?h2 0
                = Some (Data (Seq PyTuple [Seq PyList [Num (PInt 0)], Seq PyList [Num (PInt 7)]]))"
    by (simp add: deref_def)
  have d3: "deref ?h3 1 = Some (Wrap (NumberWrapper 0)) \<and> deref ?h3 0 = Some (Data (Num (PInt 3)))
            \<and> type_of (Num (PInt 3)) = TInt"
    by (simp add: deref_def)
  from change_dtype_preserves
            [where R = builtin_runtime and h = ?h1 and w = 1 and a = 0 and d = None
               and c = PyList and dtype = TInt
               and xs = "[Num (PBool True), Num (PInt 2)]"
               and ys = "[Num (PInt 1), Num (PInt 2)]"] d1 c1
  have 1: "\<exists>h'. change_dtype builtin_runtime ?h1 1 TInt = Inr h'
         \<and> deref h' 1 = Some (Wrap (Sequence1DWrapper (length ?h1) (Some TInt)))
         \<and> deref h' (length ?h1) = Some (Data (Seq PyList [Num (PInt 1), Num (PInt 2)]))"
    by blast
  from change_dtype_preserves
            [where R = builtin_runtime and h = ?h2 and w = 1 and a = 0 and d = None
               and c = PyTuple and dtype = TBool
               and rows = "[Seq PyList [Num (PInt 0)], Seq PyList [Num (PInt 7)]]"
               and rows' = "[Seq PyList [Num (PBool False)], Seq PyList [Num (PBool True)]]"] d2 c2
  have 2: "\<exists>h'. change_dtype builtin_runtime ?h2 1 TBool = Inr h'
         \<and> deref h' 1 = Some (Wrap (Sequence2DWrapper (length ?h2) (Some TBool)))
         \<and> deref h' (length ?h2)
             = Some (Data (Seq PyTuple [Seq PyList [Num (PBool False)], Seq PyList [Num (PBool True)]]))"
    by blast
  from change_dtype_preserves
            [where R = builtin_runtime and h = ?h3 and w = 1 and a = 0 and dtype = TInt
               and v = "Num (PInt 3)"] d3
  have 3: "change_dtype builtin_runtime ?h3 1 TInt = Inr ?h3"
    by blast
  have e1: "change_dtype builtin_runtime ?h1 1 TInt
     = Inr [Data (Seq PyList [Num (PBool True), Num (PInt 2)]),
            Wrap (Sequence1DWrapper 2 (Some TInt)),
            Data (Seq PyList [Num (PInt 1), Num (PInt 2)])]"
    by (simp add: change_dtype_def deref_def array_value_def alloc_def builtin_runtime_def)
  have e2: "change_dtype builtin_runtime ?h2 1 TBool
     = Inr [Data (Seq PyTuple [Seq PyList [Num (PInt 0)], Seq PyList [Num (PInt 7)]]),
            Wrap (Sequence2DWrapper 2 (Some TBool)),
            Data (Seq PyTuple [Seq PyList [Num (PBool False)], Seq PyList [Num (PBool True)]])]"
    by (simp add: change_dtype_def deref_def array_value_def alloc_def builtin_runtime_def)
  from 1 2 3 e1 e2 show ?thesis by blast
qed

section \<open>\<open>AxesActor.visibility\<close>\<close>

text \<open>
  \<open>AxesActor\<close> derives from the native class \<open>vtkAxesActor\<close>; its property
  \<open>visibility\<close> calls the native methods \<open>SetVisibility\<close> and \<open>GetVisibility\<close>,
  which take and return the C type \<open>vtkTypeBool\<close>, an integer. The native object and
  its two methods are not code of this repository: they are parameters of the model,
  over any type \<open>'n\<close> of native states.
\<close>

record 'n native_actor =
  SetVisibility :: "'n \<Rightarrow> int \<Rightarrow> 'n"
  GetVisibility :: "'n \<Rightarrow> int"

text \<open>The getter, \<open>bool(self.GetVisibility())\<close>: an integer is true when it is not 0.\<close>

definition visibility :: "'n native_actor \<Rightarrow> 'n \<Rightarrow> bool" where
  "visibility V self = (GetVisibility V self \<noteq> 0)"

text \<open>
  The setter, \<open>self.SetVisibility(value)\<close>. A Python \<open>bool\<close> is an \<open>int\<close>:
  \<open>True\<close> is passed to the native method as 1 and \<open>False\<close> as 0.
\<close>

definition int_of_bool :: "bool \<Rightarrow> int" where
  "int_of_bool b = (if b then 1 else 0)"

definition set_visibility :: "'n native_actor \<Rightarrow> 'n \<Rightarrow> bool \<Rightarrow> 'n" where
  "set_visibility V self value = SetVisibility V self (int_of_bool value)"

text \<open>
  The native accessor pair as VTK defines it with its set/get macros: a state with the
  stored flag.
\<close>

record vtkAxesActor =
  Visibility :: int

definition vtk_native :: "vtkAxesActor native_actor" where
  "vtk_native =
     \<lparr> SetVisibility = (\<lambda>self v. self\<lparr>Visibility := v\<rparr>), GetVisibility = Visibility \<rparr>"

text \<open>
  C7. The property \<open>visibility\<close> is a faithful adapter over the native flag: for every
  boolean \<open>b\<close>, reading \<open>visibility\<close> after assigning \<open>b\<close> to it returns \<open>b\<close>,
  provided the native \<open>GetVisibility\<close> returns what \<open>SetVisibility\<close> stored. The
  getter returns a \<open>bool\<close> by its type, whatever integer the native method returns.
\<close>

theorem visibility_set_get:
  assumes "\<And>self v. GetVisibility V (SetVisibility V self v) = v"
  shows "visibility V (set_visibility V self b) = b"
  using assms by (simp add: visibility_def set_visibility_def int_of_bool_def)

theorem visibility_set_get_witness:
  "(\<forall>self v. GetVisibility vtk_native (SetVisibility vtk_native self v) = v)
   \<and> visibility vtk_native (set_visibility vtk_native \<lparr>Visibility = 1\<rparr> False) = False
   \<and> visibility vtk_native (set_visibility vtk_native \<lparr>Visibility = 0\<rparr> True) = True"
proof -
  have law: "\<And>self v. GetVisibility vtk_native (SetVisibility vtk_native self v) = v"
    by (simp add: vtk_native_def)
  from visibility_set_get [of vtk_native "\<lparr>Visibility = 1\<rparr>" False, OF law]
       visibility_set_get [of vtk_native "\<lparr>Visibility = 0\<rparr>" True, OF law] law
  show ?thesis by blast
qed

section \<open>Themes: \<open>Theme.load_theme\<close> and \<open>set_plot_theme\<close>\<close>

text \<open>
  The attributes of a \<open>Theme\<close> instance are its slots. An instance is the map from
  slot names to the values assigned; \<open>getattr\<close> of a slot that holds nothing raises
  \<open>AttributeError\<close>. The two functions copy slot values without looking into them, so
  the type \<open>'v\<close> of the values is left open.
\<close>

type_synonym 'v inst = "string \<Rightarrow> 'v option"

definition Theme_slots :: "string list" where
  "Theme_slots =
     [''_name'', ''_background'', ''_jupyter_backend'', ''_trame'', ''_full_screen'',
      ''_window_size'', ''_image_scale'', ''_camera'', ''_notebook'', ''_font'',
      ''_auto_close'', ''_cmap'', ''_color'', ''_color_cycler'', ''_above_range_color'',
      ''_below_range_color'', ''_nan_color'', ''_edge_color'', ''_line_width'',
      ''_point_size'', ''_outline_color'', ''_floor_color'', ''_colorbar_orientation'',
      ''_colorbar_horizontal'', ''_colorbar_vertical'', ''_show_scalar_bar'',
      ''_show_edges'', ''_show_vertices'', ''_lighting'', ''_interactive'',
      ''_render_points_as_spheres'', ''_render_lines_as_tubes'',
      ''_transparent_background'', ''_title'', ''_axes'', ''_multi_samples'',
      ''_multi_rendering_splitting_position'', ''_volume_mapper'', ''_smooth_shading'',
      ''_depth_peeling'', ''_silhouette'', ''_slider_style'', ''_return_cpos'',
      ''_hidden_line_removal'', ''_anti_aliasing'', ''_enable_camera_orientation_widget'',
      ''_split_sharp_edges'', ''_sharp_edges_feature_angle'', ''_before_close_callback'',
      ''_allow_empty_mesh'', ''_lighting_params'', ''_interpolate_before_map'',
      ''_opacity'', ''_before_close_callback'', ''_logo_file'', ''_edge_opacity'']"

text \<open>
  What a caller can pass as \<open>theme\<close>: a string, a \<open>Theme\<close> instance (of the class or
  a subclass), or anything else, of which the name of its type \<open>type(theme).__name__\<close>
  is kept.
\<close>

datatype 'v theme_arg = AStr string | ATheme "'v inst" | AOther string

text \<open>
  The loop \<open>for attr_name in Theme.__slots__: setattr(self, attr_name,
  getattr(theme, attr_name))\<close>. The result is the exception, if one was raised, and the
  instance \<open>self\<close> as the loop left it.
\<close>

fun copy_slots :: "string list \<Rightarrow> 'v inst \<Rightarrow> 'v inst \<Rightarrow> error option \<times> 'v inst" where
  "copy_slots [] theme self = (None, self)"
| "copy_slots (attr_name # rest) theme self =
     (case theme attr_name of
        None \<Rightarrow> (Some AttributeError, self)
      | Some v \<Rightarrow> copy_slots rest theme (self(attr_name \<mapsto> v)))"

text \<open>
  \<open>Theme.load_theme\<close>. The module function \<open>load_theme(filename)\<close>, which reads a
  JSON file, is the parameter \<open>load_file\<close>.
\<close>

definition Theme_load_theme ::
  "(string \<Rightarrow> error + 'v theme_arg) \<Rightarrow> 'v inst \<Rightarrow> 'v theme_arg \<Rightarrow> error option \<times> 'v inst" where
  "Theme_load_theme load_file self theme =
     (case (case theme of AStr filename \<Rightarrow> load_file filename | _ \<Rightarrow> Inr theme) of
        Inl e \<Rightarrow> (Some e, self)
      | Inr (ATheme t) \<Rightarrow> copy_slots Theme_slots t self
      | Inr _ \<Rightarrow> (Some (TypeError ''``theme`` must be a pyvista theme like ``pyvista.plotting.themes.Theme``.''), self))"

lemma copy_slots_complete:
  "\<forall>n \<in> set ns. theme n \<noteq> None \<Longrightarrow>
     \<exists>self'. copy_slots ns theme self = (None, self')
       \<and> (\<forall>n. self' n = (if n \<in> set ns then theme n else self n))"
proof (induction ns arbitrary: self)
  case Nil
  then show ?case by simp
next
  case (Cons a ns)
  from Cons.prems obtain v where v: "theme a = Some v" by auto
  from Cons.prems have "\<forall>n \<in> set ns. theme n \<noteq> None" by simp
  from Cons.IH [OF this, of "self(a \<mapsto> v)"] obtain self' where
    s: "copy_slots ns theme (self(a \<mapsto> v)) = (None, self')"
    and r: "\<forall>n. self' n = (if n \<in> set ns then theme n else (self(a \<mapsto> v)) n)"
    by blast
  from s v have "copy_slots (a # ns) theme self = (None, self')" by simp
  moreover from r v have "\<forall>n. self' n = (if n \<in> set (a # ns) then theme n else self n)"
    by auto
  ultimately show ?case by blast
qed

lemma load_theme_copies_aux:
  assumes "\<forall>n \<in> set Theme_slots. theme n \<noteq> None"
  shows "\<exists>self'. Theme_load_theme load_file self (ATheme theme) = (None, self')
         \<and> (\<forall>n \<in> set Theme_slots. self' n = theme n)
         \<and> (\<forall>n. n \<notin> set Theme_slots \<longrightarrow> self' n = self n)"
proof -
  from copy_slots_complete [OF assms, of self] obtain self' where
    "copy_slots Theme_slots theme self = (None, self')"
    "\<forall>n. self' n = (if n \<in> set Theme_slots then theme n else self n)"
    by blast
  then show ?thesis
    by (auto simp: Theme_load_theme_def)
qed

text \<open>
  C6. \<open>Theme.load_theme(theme)\<close> with a \<open>Theme\<close> argument, all of whose slots are
  set (as \<open>Theme.__init__\<close> leaves them), returns normally and copies every slot of
  \<open>Theme.__slots__\<close>: afterwards the target holds the source's value in each of them and
  its other attributes are untouched. With an argument that is neither a \<open>str\<close> nor a
  \<open>Theme\<close> it raises \<open>TypeError\<close> and the target is unchanged.
\<close>

theorem load_theme_copies:
  "((\<forall>n \<in> set Theme_slots. theme n \<noteq> None) \<longrightarrow>
      (\<exists>self'. Theme_load_theme load_file self (ATheme theme) = (None, self')
         \<and> (\<forall>n \<in> set Theme_slots. self' n = theme n)
         \<and> (\<forall>n. n \<notin> set Theme_slots \<longrightarrow> self' n = self n)))
   \<and> Theme_load_theme load_file self (AOther tn)
       = (Some (TypeError ''``theme`` must be a pyvista theme like ``pyvista.plotting.themes.Theme``.''), self)"
proof (intro conjI impI)
  assume "\<forall>n \<in> set Theme_slots. theme n \<noteq> None"
  then show "\<exists>self'. Theme_load_theme load_file self (ATheme theme) = (None, self')
         \<and> (\<forall>n \<in> set Theme_slots. self' n = theme n)
         \<and> (\<forall>n. n \<notin> set Theme_slots \<longrightarrow> self' n = self n)"
    by (rule load_theme_copies_aux)
next
  show "Theme_load_theme load_file self (AOther tn)
       = (Some (TypeError ''``theme`` must be a pyvista theme like ``pyvista.plotting.themes.Theme``.''), self)"
    by (simp add: Theme_load_theme_def)
qed

theorem load_theme_copies_witness:
  "(\<exists>self'. Theme_load_theme (\<lambda>f. Inl (OtherError ''no file'')) (\<lambda>n. Some 0)
                 (ATheme (\<lambda>n. Some (1::nat))) = (None, self')
         \<and> self' ''_name'' = Some 1 \<and> self' ''_edge_opacity'' = Some 1
         \<and> self' ''other'' = Some 0)"
proof -
  have h: "\<forall>n \<in> set Theme_slots. (\<lambda>n. Some (1::nat)) n \<noteq> None" by simp
  from load_theme_copies [where theme = "\<lambda>n. Some (1::nat)" and self = "\<lambda>n. Some 0"
                            and load_file = "\<lambda>f. Inl (OtherError ''no file'')"] h
  obtain self' where
    1: "Theme_load_theme (\<lambda>f. Inl (OtherError ''no file'')) (\<lambda>n. Some 0)
          (ATheme (\<lambda>n. Some (1::nat))) = (None, self')"
    and 2: "\<forall>n \<in> set Theme_slots. self' n = Some 1"
    and 3: "\<forall>n. n \<notin> set Theme_slots \<longrightarrow> self' n = Some 0"
    by blast
  have "''_name'' \<in> set Theme_slots" "''_edge_opacity'' \<in> set Theme_slots"
       "''other'' \<notin> set Theme_slots"
    by (simp_all add: Theme_slots_def)
  with 2 3 have "self' ''_name'' = Some 1 \<and> self' ''_edge_opacity'' = Some 1
         \<and> self' ''other'' = Some 0" by blast
  with 1 show ?thesis by blast
qed

text \<open>
  The two methods of \<open>str\<close> that \<open>set_plot_theme\<close> relies on: \<open>s.lower()\<close>, which
  follows the Unicode tables, and \<open>repr(s)\<close>, the text of a string inside the text of a
  list. They are Python's, not the repository's, and are parameters of the model.
\<close>

record str_ops =
  str_lower :: "string \<Rightarrow> string"
  str_repr :: "string \<Rightarrow> string"

text \<open>
  The class \<open>Theme\<close> as \<open>from_default\<close> sees it: the dictionary \<open>_defaults\<close>, from
  theme names to names of class attributes, in insertion order, and for each class
  attribute the result of calling it without arguments (\<open>None\<close> where the class has no
  such attribute). \<open>register_default\<close> adds to both, so they are parameters.
\<close>

record 'v theme_class =
  defaults :: "(string \<times> string) list"
  call_attr :: "string \<Rightarrow> (error + 'v theme_arg) option"

text \<open>The value of \<open>Theme._defaults\<close> in the class body.\<close>

definition Theme_defaults :: "(string \<times> string) list" where
  "Theme_defaults =
     [(''dark'', ''dark_theme''), (''default'', ''document_theme''),
      (''document'', ''document_theme''), (''document_pro'', ''document_pro_theme''),
      (''paraview'', ''paraview_theme''), (''testing'', ''testing_theme''),
      (''vtk'', ''vtk_theme'')]"

text \<open>
  \<open>register_default(name, dict_)\<close>: the class gets the class method \<open>name\<close>, which
  returns \<open>cls.from_dict(dict_)\<close>, and \<open>_defaults[name] = name\<close>. The dictionary
  enters through \<open>made\<close>, what \<open>cls.from_dict(dict_)\<close> returns or raises.
\<close>

definition register_default ::
  "'v theme_class \<Rightarrow> string \<Rightarrow> error + 'v theme_arg \<Rightarrow> 'v theme_class" where
  "register_default cls name made =
     cls \<lparr> defaults := AList.update name name (defaults cls),
           call_attr := (call_attr cls)(name \<mapsto> made) \<rparr>"

text \<open>\<open>from_default\<close>: \<open>theme = getattr(cls, cls._defaults[name]); return theme()\<close>.\<close>

definition from_default :: "'v theme_class \<Rightarrow> string \<Rightarrow> error + 'v theme_arg" where
  "from_default cls name =
     (case map_of (defaults cls) name of
        None \<Rightarrow> Inl KeyError
      | Some attr \<Rightarrow>
          (case call_attr cls attr of
             None \<Rightarrow> Inl AttributeError
           | Some result \<Rightarrow> result))"

text \<open>
  The message of the \<open>ValueError\<close>,
  \<open>f"Theme '{theme}' not found in PyVista's default themes: {Theme.defaults()}"\<close>:
  \<open>Theme.defaults()\<close> is the list of the keys of \<open>_defaults\<close>, and the text of a list is
  the texts of its items between brackets, separated by a comma and a space.
\<close>

fun joined :: "string list \<Rightarrow> string" where
  "joined [] = ''''"
| "joined [s] = s"
| "joined (s # rest) = s @ '', '' @ joined rest"

definition list_repr :: "str_ops \<Rightarrow> string list \<Rightarrow> string" where
  "list_repr S names = ''['' @ joined (map (str_repr S) names) @ '']''"

definition not_found :: "str_ops \<Rightarrow> string \<Rightarrow> string list \<Rightarrow> error" where
  "not_found S theme names =
     ValueError (''Theme '' @ [CHR 0x27] @ theme @ [CHR 0x27] @ '' not found in PyVista''
                 @ [CHR 0x27] @ ''s default themes: '' @ list_repr S names)"

text \<open>
  \<open>set_plot_theme\<close>, on the global theme \<open>pyvista.global_theme\<close>. The result is the
  exception, if any, and the global theme afterwards.
\<close>

definition set_plot_theme ::
  "str_ops \<Rightarrow> 'v theme_class \<Rightarrow> (string \<Rightarrow> error + 'v theme_arg) \<Rightarrow> 'v inst \<Rightarrow> 'v theme_arg
     \<Rightarrow> error option \<times> 'v inst" where
  "set_plot_theme S cls load_file global_theme theme =
     (case theme of
        AStr s \<Rightarrow>
          (let theme = str_lower S s
           in case from_default cls theme of
                Inl KeyError \<Rightarrow>
                  (Some (not_found S theme (map fst (defaults cls))), global_theme)
              | Inl e \<Rightarrow> (Some e, global_theme)
              | Inr new_theme_type \<Rightarrow> Theme_load_theme load_file global_theme new_theme_type)
      | ATheme t \<Rightarrow> Theme_load_theme load_file global_theme theme
      | AOther tn \<Rightarrow>
          (Some (TypeError (''Expected a ``pyvista.plotting.themes.Theme`` or ``str``, not '' @ tn)),
           global_theme))"

lemma joined_names:
  "k \<in> set ks \<Longrightarrow> \<exists>pre post. joined (map f ks) = pre @ f k @ post"
proof (induction ks)
  case Nil
  then show ?case by simp
next
  case (Cons a ks)
  show ?case
  proof (cases ks)
    case Nil
    with Cons.prems have "joined (map f (a # ks)) = [] @ f k @ []" by simp
    then show ?thesis by blast
  next
    case (Cons b bs)
    then have j: "joined (map f (a # ks)) = f a @ '', '' @ joined (map f ks)" by simp
    show ?thesis
    proof (cases "k = a")
      case True
      with j have "joined (map f (a # ks)) = [] @ f k @ ('', '' @ joined (map f ks))" by simp
      then show ?thesis by blast
    next
      case False
      with Cons.prems have "k \<in> set ks" by simp
      from Cons.IH [OF this] obtain pre post where "joined (map f ks) = pre @ f k @ post"
        by blast
      with j have "joined (map f (a # ks)) = (f a @ '', '' @ pre) @ f k @ post" by simp
      then show ?thesis by blast
    qed
  qed
qed

lemma not_found_names:
  assumes "k \<in> set names"
  shows "\<exists>pre post. not_found S theme names = ValueError (pre @ str_repr S k @ post)"
proof -
  from joined_names [OF assms, of "str_repr S"] obtain pre post where
    "joined (map (str_repr S) names) = pre @ str_repr S k @ post" by blast
  then have "not_found S theme names
      = ValueError ((''Theme '' @ [CHR 0x27] @ theme @ [CHR 0x27] @ '' not found in PyVista''
                 @ [CHR 0x27] @ ''s default themes: '' @ ''['' @ pre) @ str_repr S k @ (post @ '']''))"
    by (simp add: not_found_def list_repr_def)
  then show ?thesis by blast
qed

text \<open>
  An instance of the two methods for strings whose characters are code points below
  256. There \<open>lower\<close> changes the letters A to Z and the capital letters from U+00C0 to
  U+00DE (all but the sign U+00D7) to the letter 32 places further, and \<open>repr\<close> puts
  the string between single quotes, or double quotes when it holds a single quote and no
  double quote, with a backslash before the quote character and the backslash, \<open>\t\<close>,
  \<open>\n\<close> and \<open>\r\<close> for tab, newline and carriage return, and \<open>\xhh\<close> for the other
  characters that do not print (below U+0020, from U+007F to U+00A0, and U+00AD).
\<close>

definition lower_char :: "char \<Rightarrow> char" where
  "lower_char c =
     (case map_of (zip ''ABCDEFGHIJKLMNOPQRSTUVWXYZ'' ''abcdefghijklmnopqrstuvwxyz'') c of
        Some l \<Rightarrow> l
      | None \<Rightarrow>
          (let n = (of_char c :: nat)
           in if 192 \<le> n \<and> n \<le> 222 \<and> n \<noteq> 215 then char_of (n + 32) else c))"

definition hex_digit :: "nat \<Rightarrow> char" where
  "hex_digit k = ''0123456789abcdef'' ! k"

definition repr_char :: "char \<Rightarrow> char \<Rightarrow> string" where
  "repr_char q c =
     (let n = (of_char c :: nat)
      in if c = q \<or> n = 92 then [CHR 0x5C, c]
         else if n = 9 then [CHR 0x5C, CHR ''t'']
         else if n = 10 then [CHR 0x5C, CHR ''n'']
         else if n = 13 then [CHR 0x5C, CHR ''r'']
         else if n < 32 \<or> (127 \<le> n \<and> n \<le> 160) \<or> n = 173
              then [CHR 0x5C, CHR ''x'', hex_digit (n div 16), hex_digit (n mod 16)]
         else [c])"

definition repr_string :: "string \<Rightarrow> string" where
  "repr_string s =
     (let q = (if CHR 0x27 \<in> set s \<and> CHR 0x22 \<notin> set s then CHR 0x22 else CHR 0x27)
      in [q] @ concat (map (repr_char q) s) @ [q])"

definition latin1 :: str_ops where
  "latin1 = \<lparr> str_lower = map lower_char, str_repr = repr_string \<rparr>"

text \<open>
  An instance of the class with its seven built-in themes, for examples: the theme
  returned by a class method holds the name of that method in every slot.
\<close>

definition builtin_Theme :: "string theme_class" where
  "builtin_Theme =
     \<lparr> defaults = Theme_defaults,
       call_attr = (\<lambda>attr. if attr \<in> snd ` set Theme_defaults
                            then Some (Inr (ATheme (\<lambda>n. Some attr))) else None) \<rparr>"

text \<open>
  C5 as stated fails on a registered name whose class method raises. After
  \<open>Theme.register_default('broken', {'no_such_attribute': 1})\<close> the name is
  registered, and the class method calls \<open>from_dict\<close>, where \<open>getattr(inst, key)\<close> raises
  \<open>AttributeError\<close> on the key; \<open>set_plot_theme\<close> catches \<open>KeyError\<close> only.
\<close>

theorem set_plot_theme_counterexample:
  "map_of (defaults (register_default builtin_Theme ''broken'' (Inl AttributeError))) ''broken''
      = Some ''broken''
   \<and> set_plot_theme latin1 (register_default builtin_Theme ''broken'' (Inl AttributeError))
        (\<lambda>f. Inl (OtherError ''no file'')) (\<lambda>n. Some ''old'') (AStr ''broken'')
      = (Some AttributeError, (\<lambda>n. Some ''old''))"
proof -
  have low: "str_lower latin1 ''broken'' = ''broken''"
    by (simp add: latin1_def lower_char_def)
  have d: "map_of (defaults (register_default builtin_Theme ''broken'' (Inl AttributeError))) ''broken''
      = Some ''broken''"
    by (simp add: register_default_def update_conv')
  have c: "call_attr (register_default builtin_Theme ''broken'' (Inl AttributeError)) ''broken''
      = Some (Inl AttributeError)"
    by (simp add: register_default_def)
  have "set_plot_theme latin1 (register_default builtin_Theme ''broken'' (Inl AttributeError))
        (\<lambda>f. Inl (OtherError ''no file'')) (\<lambda>n. Some ''old'') (AStr ''broken'')
      = (Some AttributeError, (\<lambda>n. Some ''old''))"
    by (simp add: set_plot_theme_def from_default_def low d c)
  with d show ?thesis by blast
qed

text \<open>
  C5, amended. \<open>set_plot_theme\<close> validates its argument. A string is lowercased, and
  when the lowercased name is not a key of \<open>_defaults\<close> the \<open>ValueError\<close> "Theme
  '...' not found in PyVista's default themes: [...]" is raised, whose message holds the
  text of every registered name. An argument that is neither a \<open>str\<close> nor a \<open>Theme\<close>
  raises the \<open>TypeError\<close> that names its type. In both cases the global theme is unchanged. For a registered
  name whose class method returns a theme, and for a \<open>Theme\<close> instance, no error is
  raised and the global theme holds the selected theme's value in every slot. For a
  registered name whose class method raises, the exception leaves \<open>set_plot_theme\<close>
  (a \<open>KeyError\<close> as the same \<open>ValueError\<close>) and the global theme is unchanged.
\<close>

theorem set_plot_theme_validates:
  "(map_of (defaults cls) (str_lower S s) = None \<longrightarrow>
      set_plot_theme S cls load_file g (AStr s)
        = (Some (ValueError (''Theme '' @ [CHR 0x27] @ str_lower S s @ [CHR 0x27]
                   @ '' not found in PyVista'' @ [CHR 0x27] @ ''s default themes: ''
                   @ ''['' @ joined (map (str_repr S) (map fst (defaults cls))) @ '']'')), g)
      \<and> (\<forall>k \<in> set (map fst (defaults cls)).
            \<exists>pre post. set_plot_theme S cls load_file g (AStr s)
                          = (Some (ValueError (pre @ str_repr S k @ post)), g)))
   \<and> set_plot_theme S cls load_file g (AOther tn)
        = (Some (TypeError (''Expected a ``pyvista.plotting.themes.Theme`` or ``str``, not '' @ tn)), g)
   \<and> (map_of (defaults cls) (str_lower S s) = Some attr
        \<and> call_attr cls attr = Some (Inr (ATheme t))
        \<and> (\<forall>n \<in> set Theme_slots. t n \<noteq> None) \<longrightarrow>
      (\<exists>g'. set_plot_theme S cls load_file g (AStr s) = (None, g')
         \<and> (\<forall>n \<in> set Theme_slots. g' n = t n)))
   \<and> ((\<forall>n \<in> set Theme_slots. t n \<noteq> None) \<longrightarrow>
      (\<exists>g'. set_plot_theme S cls load_file g (ATheme t) = (None, g')
         \<and> (\<forall>n \<in> set Theme_slots. g' n = t n)))
   \<and> (map_of (defaults cls) (str_lower S s) = Some attr
        \<and> call_attr cls attr = Some (Inl e) \<longrightarrow>
      set_plot_theme S cls load_file g (AStr s)
        = (Some (if e = KeyError then not_found S (str_lower S s) (map fst (defaults cls))
                 else e), g))"
proof (intro conjI impI)
  assume n: "map_of (defaults cls) (str_lower S s) = None"
  then have r: "set_plot_theme S cls load_file g (AStr s)
        = (Some (not_found S (str_lower S s) (map fst (defaults cls))), g)"
    by (simp add: set_plot_theme_def from_default_def)
  then show "set_plot_theme S cls load_file g (AStr s)
        = (Some (ValueError (''Theme '' @ [CHR 0x27] @ str_lower S s @ [CHR 0x27]
                   @ '' not found in PyVista'' @ [CHR 0x27] @ ''s default themes: ''
                   @ ''['' @ joined (map (str_repr S) (map fst (defaults cls))) @ '']'')), g)"
    by (simp add: not_found_def list_repr_def)
  show "\<forall>k \<in> set (map fst (defaults cls)).
            \<exists>pre post. set_plot_theme S cls load_file g (AStr s)
                          = (Some (ValueError (pre @ str_repr S k @ post)), g)"
  proof
    fix k assume "k \<in> set (map fst (defaults cls))"
    from not_found_names [OF this, of S "str_lower S s"] r
    show "\<exists>pre post. set_plot_theme S cls load_file g (AStr s)
                          = (Some (ValueError (pre @ str_repr S k @ post)), g)"
      by auto
  qed
next
  show "set_plot_theme S cls load_file g (AOther tn)
        = (Some (TypeError (''Expected a ``pyvista.plotting.themes.Theme`` or ``str``, not '' @ tn)), g)"
    by (simp add: set_plot_theme_def)
next
  assume a: "map_of (defaults cls) (str_lower S s) = Some attr
        \<and> call_attr cls attr = Some (Inr (ATheme t))
        \<and> (\<forall>n \<in> set Theme_slots. t n \<noteq> None)"
  then have "set_plot_theme S cls load_file g (AStr s) = Theme_load_theme load_file g (ATheme t)"
    by (simp add: set_plot_theme_def from_default_def)
  moreover from a load_theme_copies_aux [of t load_file g]
  have "\<exists>g'. Theme_load_theme load_file g (ATheme t) = (None, g')
         \<and> (\<forall>n \<in> set Theme_slots. g' n = t n)"
    by blast
  ultimately show "\<exists>g'. set_plot_theme S cls load_file g (AStr s) = (None, g')
         \<and> (\<forall>n \<in> set Theme_slots. g' n = t n)"
    by simp
next
  assume a: "\<forall>n \<in> set Theme_slots. t n \<noteq> None"
  have "set_plot_theme S cls load_file g (ATheme t) = Theme_load_theme load_file g (ATheme t)"
    by (simp add: set_plot_theme_def)
  moreover from a load_theme_copies_aux [of t load_file g]
  have "\<exists>g'. Theme_load_theme load_file g (ATheme t) = (None, g')
         \<and> (\<forall>n \<in> set Theme_slots. g' n = t n)"
    by blast
  ultimately show "\<exists>g'. set_plot_theme S cls load_file g (ATheme t) = (None, g')
         \<and> (\<forall>n \<in> set Theme_slots. g' n = t n)"
    by simp
next
  assume a: "map_of (defaults cls) (str_lower S s) = Some attr
        \<and> call_attr cls attr = Some (Inl e)"
  then show "set_plot_theme S cls load_file g (AStr s)
        = (Some (if e = KeyError then not_found S (str_lower S s) (map fst (defaults cls))
                 else e), g)"
    by (cases e) (simp_all add: set_plot_theme_def from_default_def)
qed

theorem set_plot_theme_validates_witness:
  "set_plot_theme latin1 builtin_Theme (\<lambda>f. Inl (OtherError ''no file'')) (\<lambda>n. Some ''old'')
       (AStr ''Foo'')
     = (Some (ValueError (''Theme '' @ [CHR 0x27] @ ''foo'' @ [CHR 0x27]
                @ '' not found in PyVista'' @ [CHR 0x27] @ ''s default themes: [''
                @ [CHR 0x27] @ ''dark'' @ [CHR 0x27] @ '', ''
                @ [CHR 0x27] @ ''default'' @ [CHR 0x27] @ '', ''
                @ [CHR 0x27] @ ''document'' @ [CHR 0x27] @ '', ''
                @ [CHR 0x27] @ ''document_pro'' @ [CHR 0x27] @ '', ''
                @ [CHR 0x27] @ ''paraview'' @ [CHR 0x27] @ '', ''
                @ [CHR 0x27] @ ''testing'' @ [CHR 0x27] @ '', ''
                @ [CHR 0x27] @ ''vtk'' @ [CHR 0x27] @ '']'')),
        (\<lambda>n. Some ''old''))
   \<and> (\<exists>g'. set_plot_theme latin1 builtin_Theme (\<lambda>f. Inl (OtherError ''no file''))
               (\<lambda>n. Some ''old'') (AStr ''Dark'') = (None, g')
          \<and> g' ''_name'' = Some ''dark_theme'')
   \<and> (\<exists>g'. set_plot_theme latin1 builtin_Theme (\<lambda>f. Inl (OtherError ''no file''))
               (\<lambda>n. Some ''old'') (ATheme (\<lambda>n. Some ''mine'')) = (None, g')
          \<and> g' ''_name'' = Some ''mine'')"
proof -
  let ?L = "\<lambda>f :: string. (Inl (OtherError ''no file'') :: error + string theme_arg)"
  let ?g = "\<lambda>n :: string. Some ''old''"
  have low: "str_lower latin1 ''Foo'' = ''foo''" "str_lower latin1 ''Dark'' = ''dark''"
    by (simp_all add: latin1_def lower_char_def)
  have keys: "map fst (defaults builtin_Theme)
      = [''dark'', ''default'', ''document'', ''document_pro'', ''paraview'', ''testing'', ''vtk'']"
    by (simp add: builtin_Theme_def Theme_defaults_def)
  have reprs:
    "str_repr latin1 ''dark'' = [CHR 0x27] @ ''dark'' @ [CHR 0x27]"
    "str_repr latin1 ''default'' = [CHR 0x27] @ ''default'' @ [CHR 0x27]"
    "str_repr latin1 ''document'' = [CHR 0x27] @ ''document'' @ [CHR 0x27]"
    "str_repr latin1 ''document_pro'' = [CHR 0x27] @ ''document_pro'' @ [CHR 0x27]"
    "str_repr latin1 ''paraview'' = [CHR 0x27] @ ''paraview'' @ [CHR 0x27]"
    "str_repr latin1 ''testing'' = [CHR 0x27] @ ''testing'' @ [CHR 0x27]"
    "str_repr latin1 ''vtk'' = [CHR 0x27] @ ''vtk'' @ [CHR 0x27]"
    by (simp_all add: latin1_def repr_string_def repr_char_def Let_def)
  have miss: "map_of (defaults builtin_Theme) (str_lower latin1 ''Foo'') = None"
    by (simp add: low builtin_Theme_def Theme_defaults_def)
  have hit: "map_of (defaults builtin_Theme) (str_lower latin1 ''Dark'') = Some ''dark_theme''
      \<and> call_attr builtin_Theme ''dark_theme'' = Some (Inr (ATheme (\<lambda>n. Some ''dark_theme'')))
      \<and> (\<forall>n \<in> set Theme_slots. (\<lambda>n. Some ''dark_theme'') n \<noteq> None)"
    by (simp add: low builtin_Theme_def Theme_defaults_def)
  have name: "''_name'' \<in> set Theme_slots"
    by (simp add: Theme_slots_def)
  from set_plot_theme_validates [where cls = builtin_Theme and s = "''Foo''" and g = ?g
                                      and load_file = ?L and S = latin1] miss
  have "set_plot_theme latin1 builtin_Theme ?L ?g (AStr ''Foo'')
        = (Some (ValueError (''Theme '' @ [CHR 0x27] @ str_lower latin1 ''Foo'' @ [CHR 0x27]
                   @ '' not found in PyVista'' @ [CHR 0x27] @ ''s default themes: ''
                   @ ''['' @ joined (map (str_repr latin1) (map fst (defaults builtin_Theme)))
                   @ '']'')), ?g)"
    by blast
  then have 1: "set_plot_theme latin1 builtin_Theme ?L ?g (AStr ''Foo'')
     = (Some (ValueError (''Theme '' @ [CHR 0x27] @ ''foo'' @ [CHR 0x27]
                @ '' not found in PyVista'' @ [CHR 0x27] @ ''s default themes: [''
                @ [CHR 0x27] @ ''dark'' @ [CHR 0x27] @ '', ''
                @ [CHR 0x27] @ ''default'' @ [CHR 0x27] @ '', ''
                @ [CHR 0x27] @ ''document'' @ [CHR 0x27] @ '', ''
                @ [CHR 0x27] @ ''document_pro'' @ [CHR 0x27] @ '', ''
                @ [CHR 0x27] @ ''paraview'' @ [CHR 0x27] @ '', ''
                @ [CHR 0x27] @ ''testing'' @ [CHR 0x27] @ '', ''
                @ [CHR 0x27] @ ''vtk'' @ [CHR 0x27] @ '']'')), ?g)"
    by (simp add: low keys reprs)
  have 2: "\<exists>g'. set_plot_theme latin1 builtin_Theme ?L ?g (AStr ''Dark'') = (None, g')
          \<and> g' ''_name'' = Some ''dark_theme''"
    using set_plot_theme_validates [where cls = builtin_Theme and s = "''Dark''" and g = ?g
                                      and load_file = ?L and attr = "''dark_theme''"
                                      and t = "\<lambda>n. Some ''dark_theme''" and S = latin1] hit name
    by blast
  have 3: "\<exists>g'. set_plot_theme latin1 builtin_Theme ?L ?g (ATheme (\<lambda>n. Some ''mine'')) = (None, g')
          \<and> g' ''_name'' = Some ''mine''"
    using set_plot_theme_validates [where cls = builtin_Theme and g = ?g
                                      and load_file = ?L and t = "\<lambda>n. Some ''mine''"
                                      and S = latin1] name
    by blast
  from 1 2 3 show ?thesis by blast
qed

section \<open>Theme configurations: \<open>to_dict\<close>, \<open>from_dict\<close> and \<open>__eq__\<close>\<close>

text \<open>
  The values that the slots of a theme configuration hold and that \<open>from_dict\<close>
  receives: \<open>None\<close>, numbers, strings, lists, tuples, dictionaries with string keys in
  insertion order, and instances of subclasses of \<open>_ThemeConfig\<close>. An instance is the
  name of its class and the values of its slots, by slot name.
\<close>

datatype pyv =
    VNone
  | VBool bool
  | VInt int
  | VFloat pyfloat
  | VStr string
  | VList "pyv list"
  | VTuple "pyv list"
  | VDict "(string \<times> pyv) list"
  | VObj string "(string \<times> pyv) list"

type_synonym attrs = "(string \<times> pyv) list"

fun is_config :: "pyv \<Rightarrow> bool" where
  "is_config (VObj cn s) = True"
| "is_config v = False"




text \<open>Reading a slot: \<open>AttributeError\<close> when nothing was assigned to it.\<close>

definition slot :: "attrs \<Rightarrow> string \<Rightarrow> error + pyv" where
  "slot s name = (case map_of s name of None \<Rightarrow> Inl AttributeError | Some v \<Rightarrow> Inr v)"









subsection \<open>Three configuration classes of \<open>themes.py\<close>\<close>







subsection \<open>An instance of the built-in functions\<close>

text \<open>
  \<open>float\<close>, \<open>int\<close>, \<open>bool\<close> and \<open>==\<close> as Python defines them on \<open>None\<close>, numbers,
  and lists and tuples of them, used where a concrete instance is needed. What it leaves
  out is the error \<open>OtherError ''not modelled''\<close>: the conversion of a string to a
  number, of an integer beyond \<open>2^53\<close> to a float (Python rounds it), and the comparison
  of dictionaries and of sequences that hold configurations. Items of sequences are
  compared by value; Python compares them by identity first, which differs for an item
  that is NaN only.
\<close>

fun number_of :: "pyv \<Rightarrow> pyfloat option" where
  "number_of (VBool b) = Some (Finite (if b then 1 else 0))"
| "number_of (VInt i) = Some (Finite (of_int i))"
| "number_of (VFloat f) = Some f"
| "number_of v = None"




fun eq_builtin :: "pyv \<Rightarrow> pyv \<Rightarrow> error + bool"
  and eq_items :: "pyv list \<Rightarrow> pyv list \<Rightarrow> error + bool" where
  "eq_builtin (VDict d) w = Inl (OtherError ''not modelled'')"
| "eq_builtin (VObj cn s) w = Inl (OtherError ''not modelled'')"
| "eq_builtin v (VDict d) = Inl (OtherError ''not modelled'')"
| "eq_builtin v (VObj cn s) = Inl (OtherError ''not modelled'')"
| "eq_builtin VNone w = Inr (w = VNone)"
| "eq_builtin (VStr x) w = Inr (w = VStr x)"
| "eq_builtin (VList xs) (VList ys) =
     (if length xs = length ys then eq_items xs ys else Inr False)"
| "eq_builtin (VList xs) w = Inr False"
| "eq_builtin (VTuple xs) (VTuple ys) =
     (if length xs = length ys then eq_items xs ys else Inr False)"
| "eq_builtin (VTuple xs) w = Inr False"
| "eq_builtin v w =
     (case (number_of v, number_of w) of
        (Some x, Some y) \<Rightarrow> Inr (x = y \<and> x \<noteq> NaN)
      | _ \<Rightarrow> Inr False)"
| "eq_items (x # xs) (y # ys) =
     (case eq_builtin x y of
        Inl e \<Rightarrow> Inl e
      | Inr False \<Rightarrow> Inr False
      | Inr True \<Rightarrow> eq_items xs ys)"
| "eq_items xs ys = Inr True"









lemma slot_update: "slot (AList.update k v al) n = (if n = k then Inr v else slot al n)"
  by (simp add: slot_def update_conv')

lemma slot_Inr: "slot s n = Inr v \<longleftrightarrow> map_of s n = Some v"
  by (simp add: slot_def split: option.splits)







lemma is_config_VObj: "is_config v \<longleftrightarrow> (\<exists>cn s. v = VObj cn s)"
  by (cases v) simp_all














end
